theory Spec2Isabelle
  imports Main "HOL-Library.Multiset"
begin

text \<open>
  A shallow embedding of the todo REST service: the four route handlers that
  \<^verbatim>\<open>createApp\<close> registers in \<^verbatim>\<open>src/app.ts\<close> (the single-file server registers the same
  four, statement for statement). Each handler acquires a client from the pool, sends one
  SQL statement, releases the client in a \<^verbatim>\<open>finally\<close> block and maps the result to a
  reply. The pool and the client are parameters of the model; every call made on them is
  logged, so that what a handler sent, and in which order, can be stated.
\<close>

section \<open>Values that cross the handler boundary\<close>

text \<open>
  The handlers of \<^verbatim>\<open>src/app.ts\<close> receive parsed JSON bodies, pass JavaScript values to
  \<^verbatim>\<open>client.query\<close> as statement parameters, and return JavaScript values as payloads.
  \<open>jsval\<close> is that value space. Numbers are the integers (row counts and ids are integers);
  \<open>JUndefined\<close> is the value of a property that is absent.
\<close>

datatype jsval =
    JUndefined
  | JNull
  | JBool bool
  | JNum int
  | JStr string
  | JArr "jsval list"
  | JObj "(string \<times> jsval) list"

text \<open>
  What a handler can throw: the \<open>TypeError\<close> JavaScript raises when a destructuring pattern
  or a property access meets \<open>undefined\<close> or \<open>null\<close>, and whatever the pool or the client
  rejects with.
\<close>

datatype error = TypeError | Rejected string

text \<open>
  \<^verbatim>\<open>const { k } = v\<close>: throws on \<open>undefined\<close> and \<open>null\<close>, reads the property of an
  object, and yields \<open>undefined\<close> for the other values (the handlers only destructure
  \<open>title\<close> and \<open>completed\<close>, which no boxed primitive or array defines).
\<close>

fun get_field :: "string \<Rightarrow> jsval \<Rightarrow> error + jsval" where
  "get_field k JUndefined = Inl TypeError"
| "get_field k JNull = Inl TypeError"
| "get_field k (JObj kvs) = Inr (case map_of kvs k of None \<Rightarrow> JUndefined | Some v \<Rightarrow> v)"
| "get_field k v = Inr JUndefined"

text \<open>
  The object \<^verbatim>\<open>client.query\<close> resolves with. \<open>rows\<close> is an array when present (the
  tests' mocks leave it out for DELETE, and leave \<open>rowCount\<close> out elsewhere); \<open>rowCount\<close>
  is any value, since the handler compares it with \<^verbatim>\<open>=== 0\<close> only.
\<close>

record query_result =
  rows :: "jsval list option"
  rowCount :: jsval

section \<open>The pool and the client\<close>

text \<open>
  \<open>'w\<close> is the state of the world behind the pool. \<open>connect\<close> is
  \<^verbatim>\<open>fastify.pg.connect()\<close>: \<open>None\<close> when it resolves with a client, \<open>Some e\<close> when it
  rejects. \<open>query\<close> is \<^verbatim>\<open>client.query(text, values)\<close>: it rejects with an error or
  resolves, possibly with \<open>undefined\<close> (\<open>Inr None\<close>, what a bare mock returns).
  \<open>release\<close> is \<^verbatim>\<open>client.release()\<close>, which returns nothing; the first release of an
  acquired client does not throw (the pool's contract), so it is a plain state change.
\<close>

record 'w pg =
  connect :: "'w \<Rightarrow> error option \<times> 'w"
  query :: "string \<Rightarrow> jsval list option \<Rightarrow> 'w \<Rightarrow> (error + query_result option) \<times> 'w"
  release :: "'w \<Rightarrow> 'w"

text \<open>Every call a handler makes on the pool or the client is logged, in order.\<close>

datatype event = Connect | Query string "jsval list option" | Release

type_synonym 'w st = "event list \<times> 'w"

definition pg_connect :: "'w pg \<Rightarrow> 'w st \<Rightarrow> (error + unit) \<times> 'w st" where
  "pg_connect pg s =
     (case s of (tr, w) \<Rightarrow>
        (case connect pg w of
           (None, w') \<Rightarrow> (Inr (), (tr @ [Connect], w'))
         | (Some e, w') \<Rightarrow> (Inl e, (tr @ [Connect], w'))))"

definition client_query ::
  "'w pg \<Rightarrow> string \<Rightarrow> jsval list option \<Rightarrow> 'w st \<Rightarrow> (error + query_result option) \<times> 'w st" where
  "client_query pg sql ps s =
     (case s of (tr, w) \<Rightarrow>
        (case query pg sql ps w of (r, w') \<Rightarrow> (r, (tr @ [Query sql ps], w'))))"

definition client_release :: "'w pg \<Rightarrow> 'w st \<Rightarrow> 'w st" where
  "client_release pg s = (case s of (tr, w) \<Rightarrow> (tr @ [Release], release pg w))"

text \<open>
  \<^verbatim>\<open>try { body } finally { fin }\<close>: the finaliser runs whether the body returned or
  threw, and the body's result (value or error) is the result of the whole statement.
\<close>

definition try_finally :: "('s \<Rightarrow> 'a \<times> 's) \<Rightarrow> ('s \<Rightarrow> 's) \<Rightarrow> 's \<Rightarrow> 'a \<times> 's" where
  "try_finally body fin s = (case body s of (r, s') \<Rightarrow> (r, fin s'))"

section \<open>The four route handlers of createApp\<close>

text \<open>
  A reply is the status code set on \<^verbatim>\<open>reply\<close> (200 unless \<^verbatim>\<open>reply.code\<close> was called)
  and the value the handler returned. A handler returns a reply or throws.
\<close>

record reply =
  status :: nat
  payload :: jsval

definition sql_select :: string where
  "sql_select = ''SELECT * FROM todos ORDER BY id''"

definition sql_insert :: string where
  "sql_insert = ''INSERT INTO todos (title, completed) VALUES ($1, $2) RETURNING *''"

definition sql_update :: string where
  "sql_update = ''UPDATE todos SET title = $1, completed = $2 WHERE id = $3 RETURNING *''"

definition sql_delete :: string where
  "sql_delete = ''DELETE FROM todos WHERE id = $1''"

text \<open>\<^verbatim>\<open>const { rows } = await client.query(...)\<close> and its sibling for \<open>rowCount\<close>.\<close>

definition result_rows :: "query_result option \<Rightarrow> error + jsval list option" where
  "result_rows res = (case res of None \<Rightarrow> Inl TypeError | Some r \<Rightarrow> Inr (rows r))"

definition result_rowCount :: "query_result option \<Rightarrow> error + jsval" where
  "result_rowCount res = (case res of None \<Rightarrow> Inl TypeError | Some r \<Rightarrow> Inr (rowCount r))"

text \<open>\<^verbatim>\<open>rows[0]\<close>: a \<open>TypeError\<close> when \<open>rows\<close> is undefined, \<open>undefined\<close> past the end.\<close>

definition first_row :: "jsval list option \<Rightarrow> error + jsval" where
  "first_row rs =
     (case rs of
        None \<Rightarrow> Inl TypeError
      | Some [] \<Rightarrow> Inr JUndefined
      | Some (x # _) \<Rightarrow> Inr x)"

text \<open>\<^verbatim>\<open>fastify.get("/todos", ...)\<close>\<close>

definition get_todos :: "'w pg \<Rightarrow> 'w \<Rightarrow> (error + reply) \<times> 'w st" where
  "get_todos pg w =
     (case pg_connect pg ([], w) of
        (Inl e, s1) \<Rightarrow> (Inl e, s1)
      | (Inr client, s1) \<Rightarrow>
          try_finally
            (\<lambda>s. case client_query pg sql_select None s of
                    (Inl e, s2) \<Rightarrow> (Inl e, s2)
                  | (Inr res, s2) \<Rightarrow>
                      (case result_rows res of
                         Inl e \<Rightarrow> (Inl e, s2)
                       | Inr rs \<Rightarrow>
                           (Inr \<lparr>status = 200,
                                 payload = (case rs of None \<Rightarrow> JUndefined | Some xs \<Rightarrow> JArr xs)\<rparr>,
                            s2)))
            (client_release pg) s1)"

text \<open>\<^verbatim>\<open>fastify.post("/todos", ...)\<close>\<close>

definition post_todos :: "'w pg \<Rightarrow> jsval \<Rightarrow> 'w \<Rightarrow> (error + reply) \<times> 'w st" where
  "post_todos pg body w =
     (case get_field ''title'' body of
        Inl e \<Rightarrow> (Inl e, ([], w))
      | Inr title \<Rightarrow>
          (case pg_connect pg ([], w) of
             (Inl e, s1) \<Rightarrow> (Inl e, s1)
           | (Inr client, s1) \<Rightarrow>
               try_finally
                 (\<lambda>s. case client_query pg sql_insert (Some [title, JBool False]) s of
                         (Inl e, s2) \<Rightarrow> (Inl e, s2)
                       | (Inr res, s2) \<Rightarrow>
                           (case result_rows res of
                              Inl e \<Rightarrow> (Inl e, s2)
                            | Inr rs \<Rightarrow>
                                (case first_row rs of
                                   Inl e \<Rightarrow> (Inl e, s2)
                                 | Inr row \<Rightarrow> (Inr \<lparr>status = 201, payload = row\<rparr>, s2))))
                 (client_release pg) s1))"

text \<open>\<^verbatim>\<open>fastify.put("/todos/:id", ...)\<close>\<close>

definition put_todo :: "'w pg \<Rightarrow> string \<Rightarrow> jsval \<Rightarrow> 'w \<Rightarrow> (error + reply) \<times> 'w st" where
  "put_todo pg ident body w =
     (case get_field ''title'' body of
        Inl e \<Rightarrow> (Inl e, ([], w))
      | Inr title \<Rightarrow>
     (case get_field ''completed'' body of
        Inl e \<Rightarrow> (Inl e, ([], w))
      | Inr completed \<Rightarrow>
          (case pg_connect pg ([], w) of
             (Inl e, s1) \<Rightarrow> (Inl e, s1)
           | (Inr client, s1) \<Rightarrow>
               try_finally
                 (\<lambda>s. case client_query pg sql_update (Some [title, completed, JStr ident]) s of
                         (Inl e, s2) \<Rightarrow> (Inl e, s2)
                       | (Inr res, s2) \<Rightarrow>
                           (case result_rows res of
                              Inl e \<Rightarrow> (Inl e, s2)
                            | Inr None \<Rightarrow> (Inl TypeError, s2)
                            | Inr (Some xs) \<Rightarrow>
                                if length xs = 0
                                then (Inr \<lparr>status = 404,
                                           payload = JObj [(''error'', JStr ''TODO not found'')]\<rparr>, s2)
                                else (case first_row (Some xs) of
                                        Inl e \<Rightarrow> (Inl e, s2)
                                      | Inr row \<Rightarrow> (Inr \<lparr>status = 200, payload = row\<rparr>, s2))))
                 (client_release pg) s1)))"

text \<open>\<^verbatim>\<open>fastify.delete("/todos/:id", ...)\<close>\<close>

definition delete_todo :: "'w pg \<Rightarrow> string \<Rightarrow> 'w \<Rightarrow> (error + reply) \<times> 'w st" where
  "delete_todo pg ident w =
     (case pg_connect pg ([], w) of
        (Inl e, s1) \<Rightarrow> (Inl e, s1)
      | (Inr client, s1) \<Rightarrow>
          try_finally
            (\<lambda>s. case client_query pg sql_delete (Some [JStr ident]) s of
                    (Inl e, s2) \<Rightarrow> (Inl e, s2)
                  | (Inr res, s2) \<Rightarrow>
                      (case result_rowCount res of
                         Inl e \<Rightarrow> (Inl e, s2)
                       | Inr n \<Rightarrow>
                           if n = JNum 0
                           then (Inr \<lparr>status = 404,
                                      payload = JObj [(''error'', JStr ''TODO not found'')]\<rparr>, s2)
                           else (Inr \<lparr>status = 204, payload = JStr ''''\<rparr>, s2)))
            (client_release pg) s1)"

text \<open>The routes createApp registers: a request is one of the four method/path pairs.\<close>

datatype request =
    GetTodos
  | PostTodos jsval
  | PutTodo string jsval
  | DeleteTodo string

fun createApp :: "'w pg \<Rightarrow> request \<Rightarrow> 'w \<Rightarrow> (error + reply) \<times> 'w st" where
  "createApp pg GetTodos w = get_todos pg w"
| "createApp pg (PostTodos body) w = post_todos pg body w"
| "createApp pg (PutTodo ident body) w = put_todo pg ident body w"
| "createApp pg (DeleteTodo ident) w = delete_todo pg ident w"

text \<open>
  Whether the request's body can be destructured by its handler, and the log and the
  statements of a finished request.
\<close>

fun body_ok :: "request \<Rightarrow> bool" where
  "body_ok GetTodos = True"
| "body_ok (PostTodos body) = (body \<noteq> JUndefined \<and> body \<noteq> JNull)"
| "body_ok (PutTodo ident body) = (body \<noteq> JUndefined \<and> body \<noteq> JNull)"
| "body_ok (DeleteTodo ident) = True"

definition trace_of :: "'a \<times> 'w st \<Rightarrow> event list" where
  "trace_of r = fst (snd r)"

definition world_of :: "'a \<times> 'w st \<Rightarrow> 'w" where
  "world_of r = snd (snd r)"

definition is_query :: "event \<Rightarrow> bool" where
  "is_query ev = (case ev of Query sql ps \<Rightarrow> True | _ \<Rightarrow> False)"

definition statements :: "'a \<times> 'w st \<Rightarrow> event list" where
  "statements r = filter is_query (trace_of r)"

section \<open>Test doubles\<close>

text \<open>
  The tests' \<^verbatim>\<open>createMockClient\<close> with \<^verbatim>\<open>setupDatabaseMock\<close>: \<open>connect\<close> settles with
  a fixed value, \<open>query\<close> settles with a fixed value whatever the statement, and
  \<open>release\<close> does nothing.
\<close>

definition mockClient :: "error option \<Rightarrow> (error + query_result option) \<Rightarrow> unit pg" where
  "mockClient c q =
     \<lparr>connect = (\<lambda>w. (c, w)), query = (\<lambda>sql ps w. (q, w)), release = (\<lambda>w. w)\<rparr>"

section \<open>The relational store\<close>

text \<open>
  Modelled from the spec: the relational store behind the pool is not code of this
  repository (the handlers only send it SQL text). The definitions of this section follow
  the spec's collaborator contract: a \<open>todos\<close> table with columns \<open>id\<close> (unique,
  store-assigned on insert), \<open>title\<close> (text) and \<open>completed\<close> (boolean), supporting an
  ordered full-table read, insert-with-returning, update-with-returning filtered by \<open>id\<close>,
  and delete filtered by \<open>id\<close> reporting the affected-row count.
\<close>

record todo =
  todo_id :: int
  title :: string
  completed :: bool

record store =
  todos :: "todo list"
  next_id :: int

text \<open>
  Modelled from the spec: "the store performs any needed comparison/coercion". A text, a
  boolean and a number are taken as they are; what the store makes of any other parameter
  value (a missing title, an id given as a string) is left open as a parameter.
\<close>

record coercion =
  text_of :: "jsval \<Rightarrow> error + string"
  bool_of :: "jsval \<Rightarrow> error + bool"
  ident_of :: "jsval \<Rightarrow> error + int"

definition as_text :: "coercion \<Rightarrow> jsval \<Rightarrow> error + string" where
  "as_text co v = (case v of JStr s \<Rightarrow> Inr s | _ \<Rightarrow> text_of co v)"

definition as_bool :: "coercion \<Rightarrow> jsval \<Rightarrow> error + bool" where
  "as_bool co v = (case v of JBool b \<Rightarrow> Inr b | _ \<Rightarrow> bool_of co v)"

definition as_id :: "coercion \<Rightarrow> jsval \<Rightarrow> error + int" where
  "as_id co v = (case v of JNum n \<Rightarrow> Inr n | _ \<Rightarrow> ident_of co v)"

definition row_js :: "todo \<Rightarrow> jsval" where
  "row_js t =
     JObj [(''id'', JNum (todo_id t)), (''title'', JStr (title t)),
           (''completed'', JBool (completed t))]"

text \<open>Modelled from the spec: ordered full-table read.\<close>

definition select_all :: "store \<Rightarrow> query_result" where
  "select_all db =
     \<lparr>rows = Some (map row_js (sort_key todo_id (todos db))),
      rowCount = JNum (int (length (todos db)))\<rparr>"

text \<open>Modelled from the spec: insert-with-returning; the store assigns the id.\<close>

definition insert_returning :: "string \<Rightarrow> bool \<Rightarrow> store \<Rightarrow> query_result \<times> store" where
  "insert_returning t c db =
     (let row = \<lparr>todo_id = next_id db, title = t, completed = c\<rparr>
      in (\<lparr>rows = Some [row_js row], rowCount = JNum 1\<rparr>,
          db\<lparr>todos := todos db @ [row], next_id := next_id db + 1\<rparr>))"

text \<open>Modelled from the spec: update-with-returning filtered by id.\<close>

definition update_returning ::
  "string \<Rightarrow> bool \<Rightarrow> int \<Rightarrow> store \<Rightarrow> query_result \<times> store" where
  "update_returning t c i db =
     (let new = map (\<lambda>r. if todo_id r = i then r\<lparr>title := t, completed := c\<rparr> else r) (todos db);
          hits = filter (\<lambda>r. todo_id r = i) new
      in (\<lparr>rows = Some (map row_js hits), rowCount = JNum (int (length hits))\<rparr>,
          db\<lparr>todos := new\<rparr>))"

text \<open>Modelled from the spec: delete filtered by id, reporting the affected-row count.\<close>

definition delete_where :: "int \<Rightarrow> store \<Rightarrow> query_result \<times> store" where
  "delete_where i db =
     (\<lparr>rows = Some [],
       rowCount = JNum (int (length (filter (\<lambda>r. todo_id r = i) (todos db))))\<rparr>,
      db\<lparr>todos := filter (\<lambda>r. todo_id r \<noteq> i) (todos db)\<rparr>)"

text \<open>
  Modelled from the spec: the client of a store. It executes the four statements the
  handlers send, rejects a parameter it cannot coerce without touching the table, and
  rejects any other statement text.
\<close>

definition store_query ::
  "coercion \<Rightarrow> string \<Rightarrow> jsval list option \<Rightarrow> store \<Rightarrow> (error + query_result option) \<times> store" where
  "store_query co sql ps db =
     (if sql = sql_select then (Inr (Some (select_all db)), db)
      else if sql = sql_insert then
        (case ps of
           Some [t, c] \<Rightarrow>
             (case as_text co t of
                Inl e \<Rightarrow> (Inl e, db)
              | Inr t' \<Rightarrow>
                  (case as_bool co c of
                     Inl e \<Rightarrow> (Inl e, db)
                   | Inr c' \<Rightarrow>
                       (case insert_returning t' c' db of (r, db') \<Rightarrow> (Inr (Some r), db'))))
         | _ \<Rightarrow> (Inl (Rejected ''bind''), db))
      else if sql = sql_update then
        (case ps of
           Some [t, c, i] \<Rightarrow>
             (case as_text co t of
                Inl e \<Rightarrow> (Inl e, db)
              | Inr t' \<Rightarrow>
                  (case as_bool co c of
                     Inl e \<Rightarrow> (Inl e, db)
                   | Inr c' \<Rightarrow>
                       (case as_id co i of
                          Inl e \<Rightarrow> (Inl e, db)
                        | Inr i' \<Rightarrow>
                            (case update_returning t' c' i' db of
                               (r, db') \<Rightarrow> (Inr (Some r), db')))))
         | _ \<Rightarrow> (Inl (Rejected ''bind''), db))
      else if sql = sql_delete then
        (case ps of
           Some [i] \<Rightarrow>
             (case as_id co i of
                Inl e \<Rightarrow> (Inl e, db)
              | Inr i' \<Rightarrow> (case delete_where i' db of (r, db') \<Rightarrow> (Inr (Some r), db')))
         | _ \<Rightarrow> (Inl (Rejected ''bind''), db))
      else (Inl (Rejected ''syntax''), db))"

definition store_pg :: "coercion \<Rightarrow> store pg" where
  "store_pg co =
     \<lparr>connect = (\<lambda>db. (None, db)), query = store_query co, release = (\<lambda>db. db)\<rparr>"

text \<open>
  Modelled from the spec: "no two Todos share an id", and ids are assigned by the store,
  so every id in the table lies below the next one to be assigned.
\<close>

definition wf_store :: "store \<Rightarrow> bool" where
  "wf_store db =
     (distinct (map todo_id (todos db)) \<and> list_all (\<lambda>r. todo_id r < next_id db) (todos db))"

text \<open>
  A coercion for the examples: an id written in decimal digits is read as that number, and
  every other value that is not already of the column's type is rejected.
\<close>

definition decimal :: "string \<Rightarrow> int option" where
  "decimal s =
     (if s \<noteq> [] \<and> list_all (\<lambda>c. c \<in> set ''0123456789'') s
      then Some (foldl (\<lambda>n c. 10 * n + (of_char c - 48)) 0 s)
      else None)"

definition strict :: coercion where
  "strict =
     \<lparr>text_of = (\<lambda>v. Inl (Rejected ''text'')),
      bool_of = (\<lambda>v. Inl (Rejected ''boolean'')),
      ident_of = (\<lambda>v. case v of
                         JStr s \<Rightarrow> (case decimal s of
                                      None \<Rightarrow> Inl (Rejected ''integer'')
                                    | Some n \<Rightarrow> Inr n)
                       | _ \<Rightarrow> Inl (Rejected ''integer''))\<rparr>"

text \<open>The tests' \<^verbatim>\<open>sampleTodos\<close>, as a table.\<close>

definition sampleTodos :: "todo list" where
  "sampleTodos =
     [\<lparr>todo_id = 1, title = ''Learn TypeScript'', completed = True\<rparr>,
      \<lparr>todo_id = 2, title = ''Build REST API'', completed = False\<rparr>,
      \<lparr>todo_id = 3, title = ''Write tests'', completed = True\<rparr>,
      \<lparr>todo_id = 4, title = ''Deploy to production'', completed = False\<rparr>]"

definition sampleStore :: store where
  "sampleStore = \<lparr>todos = sampleTodos, next_id = 5\<rparr>"

section \<open>Properties of the handlers, for every pool and client\<close>

lemma sql_distinct:
  "sql_insert \<noteq> sql_select" "sql_update \<noteq> sql_select" "sql_delete \<noteq> sql_select"
  "sql_update \<noteq> sql_insert" "sql_delete \<noteq> sql_insert" "sql_delete \<noteq> sql_update"
  by (simp_all add: sql_select_def sql_insert_def sql_update_def sql_delete_def)

lemmas io_defs = pg_connect_def client_query_def client_release_def try_finally_def

lemma get_todos_connected:
  assumes "connect pg w = (None, w1)" and "query pg sql_select None w1 = (q, w2)"
  shows "get_todos pg w =
    ((case q of
        Inl e \<Rightarrow> Inl e
      | Inr res \<Rightarrow>
          (case result_rows res of
             Inl e \<Rightarrow> Inl e
           | Inr rs \<Rightarrow> Inr \<lparr>status = 200,
                            payload = (case rs of None \<Rightarrow> JUndefined | Some xs \<Rightarrow> JArr xs)\<rparr>)),
     ([Connect, Query sql_select None, Release], release pg w2))"
  using assms by (simp add: get_todos_def io_defs split: sum.splits)

lemma post_todos_connected:
  assumes "get_field ''title'' body = Inr t"
    and "connect pg w = (None, w1)"
    and "query pg sql_insert (Some [t, JBool False]) w1 = (q, w2)"
  shows "post_todos pg body w =
    ((case q of
        Inl e \<Rightarrow> Inl e
      | Inr res \<Rightarrow>
          (case result_rows res of
             Inl e \<Rightarrow> Inl e
           | Inr rs \<Rightarrow>
               (case first_row rs of
                  Inl e \<Rightarrow> Inl e
                | Inr row \<Rightarrow> Inr \<lparr>status = 201, payload = row\<rparr>))),
     ([Connect, Query sql_insert (Some [t, JBool False]), Release], release pg w2))"
  using assms by (simp add: post_todos_def io_defs split: sum.splits)

lemma put_todo_connected:
  assumes "get_field ''title'' body = Inr t"
    and "get_field ''completed'' body = Inr c"
    and "connect pg w = (None, w1)"
    and "query pg sql_update (Some [t, c, JStr ident]) w1 = (q, w2)"
  shows "put_todo pg ident body w =
    ((case q of
        Inl e \<Rightarrow> Inl e
      | Inr res \<Rightarrow>
          (case result_rows res of
             Inl e \<Rightarrow> Inl e
           | Inr None \<Rightarrow> Inl TypeError
           | Inr (Some []) \<Rightarrow>
               Inr \<lparr>status = 404, payload = JObj [(''error'', JStr ''TODO not found'')]\<rparr>
           | Inr (Some (row # rest)) \<Rightarrow> Inr \<lparr>status = 200, payload = row\<rparr>)),
     ([Connect, Query sql_update (Some [t, c, JStr ident]), Release], release pg w2))"
  using assms
  by (simp add: put_todo_def io_defs first_row_def split: sum.splits option.splits list.splits)

lemma delete_todo_connected:
  assumes "connect pg w = (None, w1)"
    and "query pg sql_delete (Some [JStr ident]) w1 = (q, w2)"
  shows "delete_todo pg ident w =
    ((case q of
        Inl e \<Rightarrow> Inl e
      | Inr res \<Rightarrow>
          (case result_rowCount res of
             Inl e \<Rightarrow> Inl e
           | Inr n \<Rightarrow>
               if n = JNum 0
               then Inr \<lparr>status = 404, payload = JObj [(''error'', JStr ''TODO not found'')]\<rparr>
               else Inr \<lparr>status = 204, payload = JStr ''''\<rparr>)),
     ([Connect, Query sql_delete (Some [JStr ident]), Release], release pg w2))"
  using assms by (simp add: delete_todo_def io_defs split: sum.splits)

lemma connect_rejected:
  assumes "connect pg w = (Some e, w1)"
  shows "get_todos pg w = (Inl e, ([Connect], w1))"
    and "get_field ''title'' body = Inr t \<Longrightarrow> post_todos pg body w = (Inl e, ([Connect], w1))"
    and "get_field ''title'' body = Inr t \<Longrightarrow> get_field ''completed'' body = Inr c \<Longrightarrow>
           put_todo pg ident body w = (Inl e, ([Connect], w1))"
    and "delete_todo pg ident w = (Inl e, ([Connect], w1))"
  using assms
  by (simp_all add: get_todos_def post_todos_def put_todo_def delete_todo_def io_defs)

lemma get_field_ok:
  "body \<noteq> JUndefined \<Longrightarrow> body \<noteq> JNull \<Longrightarrow> \<exists>v. get_field k body = Inr v"
  by (cases body) simp_all


lemma body_rejected:
  assumes "\<not> body_ok req"
  shows "createApp pg req w = (Inl TypeError, ([], w))"
  using assms by (cases req) (auto simp: post_todos_def put_todo_def)

lemma trace_connected:
  assumes "body_ok req" and "fst (connect pg w) = None"
  shows "\<exists>sql ps. trace_of (createApp pg req w) = [Connect, Query sql ps, Release]"
proof -
  obtain w1 where c: "connect pg w = (None, w1)"
    using assms(2) by (cases "connect pg w") simp
  show ?thesis
  proof (cases req)
    case GetTodos
    obtain q w2 where "query pg sql_select None w1 = (q, w2)"
      by (cases "query pg sql_select None w1")
    from get_todos_connected [OF c this] GetTodos show ?thesis
      by (simp add: trace_of_def)
  next
    case (PostTodos body)
    with assms(1) obtain t where t: "get_field ''title'' body = Inr t"
      using get_field_ok [of body "''title''"] by auto
    obtain q w2 where "query pg sql_insert (Some [t, JBool False]) w1 = (q, w2)"
      by (cases "query pg sql_insert (Some [t, JBool False]) w1")
    from post_todos_connected [OF t c this] PostTodos show ?thesis
      by (simp add: trace_of_def)
  next
    case (PutTodo ident body)
    with assms(1) obtain t v where t: "get_field ''title'' body = Inr t"
      and v: "get_field ''completed'' body = Inr v"
      using get_field_ok [of body "''title''"] get_field_ok [of body "''completed''"] by auto
    obtain q w2 where "query pg sql_update (Some [t, v, JStr ident]) w1 = (q, w2)"
      by (cases "query pg sql_update (Some [t, v, JStr ident]) w1")
    from put_todo_connected [OF t v c this] PutTodo show ?thesis
      by (simp add: trace_of_def)
  next
    case (DeleteTodo ident)
    obtain q w2 where "query pg sql_delete (Some [JStr ident]) w1 = (q, w2)"
      by (cases "query pg sql_delete (Some [JStr ident]) w1")
    from delete_todo_connected [OF c this] DeleteTodo show ?thesis
      by (simp add: trace_of_def)
  qed
qed

text \<open>
  Claim C1. For a request to any of the four routes whose handler acquires a connection
  (the body can be destructured and \<open>connect\<close> resolves), \<open>release\<close> is called exactly
  once, as the last call of the request, whatever \<open>query\<close> does: resolve, resolve with a
  value that cannot be destructured, or reject. A request whose body cannot be destructured
  makes no call at all (\<open>body_rejected\<close>), so there is no connection to release.
\<close>

theorem release_exactly_once:
  assumes "body_ok req" and "fst (connect pg w) = None"
  shows "count_list (trace_of (createApp pg req w)) Release = 1
    \<and> last (trace_of (createApp pg req w)) = Release"
proof -
  from trace_connected [OF assms] obtain sql ps
    where "trace_of (createApp pg req w) = [Connect, Query sql ps, Release]" by blast
  then show ?thesis by simp
qed

theorem release_exactly_once_witness:
  "body_ok GetTodos
   \<and> fst (connect (mockClient None (Inl (Rejected ''Query failed''))) ()) = None
   \<and> count_list (trace_of (createApp (mockClient None (Inl (Rejected ''Query failed''))) GetTodos ()))
        Release = 1
   \<and> body_ok (PutTodo ''1'' (JObj [(''title'', JStr ''Updated todo''), (''completed'', JBool True)]))
   \<and> count_list
        (trace_of (createApp
           (mockClient None (Inr (Some \<lparr>rows = Some [JObj [(''id'', JNum 1)]], rowCount = JNum 1\<rparr>)))
           (PutTodo ''1'' (JObj [(''title'', JStr ''Updated todo''), (''completed'', JBool True)])) ()))
        Release = 1"
  using release_exactly_once [of GetTodos "mockClient None (Inl (Rejected ''Query failed''))" "()"]
    release_exactly_once [of "PutTodo ''1'' (JObj [(''title'', JStr ''Updated todo''), (''completed'', JBool True)])"
      "mockClient None (Inr (Some \<lparr>rows = Some [JObj [(''id'', JNum 1)]], rowCount = JNum 1\<rparr>))" "()"]
  by (simp add: mockClient_def)

text \<open>
  Claim C2. A Create request whose body can be destructured and whose connection is
  acquired sends exactly one statement, the insert with the parameters \<open>[title, false]\<close>:
  the second parameter is the literal \<open>false\<close> whatever the body holds under \<open>completed\<close>.
  When the store resolves the insert with a row, the reply has status 201 and that row as
  its body.
\<close>

theorem create_inserts_false_and_replies_created:
  assumes "get_field ''title'' body = Inr t"
    and "connect pg w = (None, w1)"
    and "query pg sql_insert (Some [t, JBool False]) w1 = (q, w2)"
  shows "statements (post_todos pg body w) = [Query sql_insert (Some [t, JBool False])]
    \<and> (q = Inr (Some r) \<and> rows r = Some (row # rest) \<longrightarrow>
          fst (post_todos pg body w) = Inr \<lparr>status = 201, payload = row\<rparr>)"
  using post_todos_connected [OF assms]
  by (simp add: statements_def trace_of_def is_query_def result_rows_def first_row_def)

theorem create_inserts_false_and_replies_created_witness:
  "get_field ''title'' (JObj [(''title'', JStr ''New todo''), (''completed'', JBool True)])
     = Inr (JStr ''New todo'')
   \<and> statements (post_todos
         (mockClient None (Inr (Some \<lparr>rows = Some [JObj [(''id'', JNum 3), (''title'', JStr ''New todo''),
              (''completed'', JBool False)]], rowCount = JNum 1\<rparr>)))
         (JObj [(''title'', JStr ''New todo''), (''completed'', JBool True)]) ())
       = [Query sql_insert (Some [JStr ''New todo'', JBool False])]
   \<and> fst (post_todos
         (mockClient None (Inr (Some \<lparr>rows = Some [JObj [(''id'', JNum 3), (''title'', JStr ''New todo''),
              (''completed'', JBool False)]], rowCount = JNum 1\<rparr>)))
         (JObj [(''title'', JStr ''New todo''), (''completed'', JBool True)]) ())
       = Inr \<lparr>status = 201, payload = JObj [(''id'', JNum 3), (''title'', JStr ''New todo''),
              (''completed'', JBool False)]\<rparr>"
  using create_inserts_false_and_replies_created
    [of "JObj [(''title'', JStr ''New todo''), (''completed'', JBool True)]" "JStr ''New todo''"
        "mockClient None (Inr (Some \<lparr>rows = Some [JObj [(''id'', JNum 3), (''title'', JStr ''New todo''),
              (''completed'', JBool False)]], rowCount = JNum 1\<rparr>))" "()" "()"
        "Inr (Some \<lparr>rows = Some [JObj [(''id'', JNum 3), (''title'', JStr ''New todo''),
              (''completed'', JBool False)]], rowCount = JNum 1\<rparr>)" "()"
        "\<lparr>rows = Some [JObj [(''id'', JNum 3), (''title'', JStr ''New todo''),
              (''completed'', JBool False)]], rowCount = JNum 1\<rparr>"
        "JObj [(''id'', JNum 3), (''title'', JStr ''New todo''), (''completed'', JBool False)]" "[]"]
  by (simp add: mockClient_def)

text \<open>
  Claim C4. When the delete resolves with an affected-row count of 0 the reply is 404 with
  the payload \<open>{error: "TODO not found"}\<close>, which is the reply Update gives when its
  statement returns no row; when it resolves with a count of 1 the reply is 204 with the
  empty string as body.
\<close>

theorem delete_not_found_or_no_content:
  assumes "connect pg w = (None, w1)"
    and "query pg sql_delete (Some [JStr ident]) w1 = (Inr (Some r), w2)"
  shows "(rowCount r = JNum 0 \<longrightarrow>
            fst (delete_todo pg ident w)
              = Inr \<lparr>status = 404, payload = JObj [(''error'', JStr ''TODO not found'')]\<rparr>
          \<and> fst (delete_todo pg ident w)
              = fst (put_todo (mockClient None (Inr (Some \<lparr>rows = Some [], rowCount = JNum 0\<rparr>)))
                      ident (JObj []) ()))
    \<and> (rowCount r = JNum 1 \<longrightarrow>
            fst (delete_todo pg ident w) = Inr \<lparr>status = 204, payload = JStr ''''\<rparr>)"
proof -
  have "put_todo (mockClient None (Inr (Some \<lparr>rows = Some [], rowCount = JNum 0\<rparr>))) ident (JObj []) ()
      = (Inr \<lparr>status = 404, payload = JObj [(''error'', JStr ''TODO not found'')]\<rparr>,
         ([Connect, Query sql_update (Some [JUndefined, JUndefined, JStr ident]), Release], ()))"
    by (simp add: put_todo_def io_defs mockClient_def result_rows_def)
  with delete_todo_connected [OF assms] show ?thesis
    by (simp add: result_rowCount_def)
qed

theorem delete_not_found_or_no_content_witness:
  "fst (delete_todo (mockClient None (Inr (Some \<lparr>rows = None, rowCount = JNum 0\<rparr>))) ''999'' ())
     = Inr \<lparr>status = 404, payload = JObj [(''error'', JStr ''TODO not found'')]\<rparr>
   \<and> fst (delete_todo (mockClient None (Inr (Some \<lparr>rows = None, rowCount = JNum 1\<rparr>))) ''1'' ())
     = Inr \<lparr>status = 204, payload = JStr ''''\<rparr>"
  using delete_not_found_or_no_content
      [of "mockClient None (Inr (Some \<lparr>rows = None, rowCount = JNum 0\<rparr>))" "()" "()" "''999''"
          "\<lparr>rows = None, rowCount = JNum 0\<rparr>" "()"]
    delete_not_found_or_no_content
      [of "mockClient None (Inr (Some \<lparr>rows = None, rowCount = JNum 1\<rparr>))" "()" "()" "''1''"
          "\<lparr>rows = None, rowCount = JNum 1\<rparr>" "()"]
  by (simp add: mockClient_def)

text \<open>
  Claim C7. The \<open>id\<close> path segment reaches the store as the string it is: Update sends it
  as the third parameter and Delete as the only parameter, for every string, numeric or
  not.
\<close>

theorem id_passed_verbatim:
  assumes "get_field ''title'' body = Inr t"
    and "get_field ''completed'' body = Inr c"
    and "fst (connect pg w) = None"
  shows "statements (put_todo pg ident body w) = [Query sql_update (Some [t, c, JStr ident])]
    \<and> statements (delete_todo pg ident w) = [Query sql_delete (Some [JStr ident])]"
proof -
  obtain w1 where w1: "connect pg w = (None, w1)"
    using assms(3) by (cases "connect pg w") simp
  obtain q w2 where "query pg sql_update (Some [t, c, JStr ident]) w1 = (q, w2)"
    by (cases "query pg sql_update (Some [t, c, JStr ident]) w1")
  from put_todo_connected [OF assms(1,2) w1 this]
  have put: "statements (put_todo pg ident body w) = [Query sql_update (Some [t, c, JStr ident])]"
    by (simp add: statements_def trace_of_def is_query_def)
  obtain q' w2' where "query pg sql_delete (Some [JStr ident]) w1 = (q', w2')"
    by (cases "query pg sql_delete (Some [JStr ident]) w1")
  from delete_todo_connected [OF w1 this]
  have "statements (delete_todo pg ident w) = [Query sql_delete (Some [JStr ident])]"
    by (simp add: statements_def trace_of_def is_query_def)
  with put show ?thesis by simp
qed

theorem id_passed_verbatim_witness:
  "get_field ''title'' (JObj [(''title'', JStr ''Updated todo''), (''completed'', JBool True)])
     = Inr (JStr ''Updated todo'')
   \<and> get_field ''completed'' (JObj [(''title'', JStr ''Updated todo''), (''completed'', JBool True)])
     = Inr (JBool True)
   \<and> fst (connect (store_pg strict) sampleStore) = None
   \<and> statements (put_todo (store_pg strict) ''007''
        (JObj [(''title'', JStr ''Updated todo''), (''completed'', JBool True)]) sampleStore)
     = [Query sql_update (Some [JStr ''Updated todo'', JBool True, JStr ''007''])]
   \<and> statements (delete_todo (store_pg strict) ''007'' sampleStore)
     = [Query sql_delete (Some [JStr ''007''])]"
  using id_passed_verbatim
    [of "JObj [(''title'', JStr ''Updated todo''), (''completed'', JBool True)]"
        "JStr ''Updated todo''" "JBool True" "store_pg strict" sampleStore "''007''"]
  by (simp add: store_pg_def)

text \<open>
  Claim C9. Once the delete resolves, the reply is 404 exactly when the reported
  \<open>rowCount\<close> is the number 0; for every other value (null, absent, a count above one, a
  string) it is 204 with the empty string as body.
\<close>

theorem delete_404_iff_rowCount_zero:
  assumes "connect pg w = (None, w1)"
    and "query pg sql_delete (Some [JStr ident]) w1 = (Inr (Some r), w2)"
  shows "fst (delete_todo pg ident w) =
    (if rowCount r = JNum 0
     then Inr \<lparr>status = 404, payload = JObj [(''error'', JStr ''TODO not found'')]\<rparr>
     else Inr \<lparr>status = 204, payload = JStr ''''\<rparr>)"
  using delete_todo_connected [OF assms] by (simp add: result_rowCount_def)

theorem delete_404_iff_rowCount_zero_witness:
  "fst (delete_todo (mockClient None (Inr (Some \<lparr>rows = None, rowCount = JNull\<rparr>))) ''1'' ())
     = Inr \<lparr>status = 204, payload = JStr ''''\<rparr>
   \<and> fst (delete_todo (mockClient None (Inr (Some \<lparr>rows = None, rowCount = JUndefined\<rparr>))) ''1'' ())
     = Inr \<lparr>status = 204, payload = JStr ''''\<rparr>
   \<and> fst (delete_todo (mockClient None (Inr (Some \<lparr>rows = None, rowCount = JNum 2\<rparr>))) ''1'' ())
     = Inr \<lparr>status = 204, payload = JStr ''''\<rparr>
   \<and> fst (delete_todo (mockClient None (Inr (Some \<lparr>rows = None, rowCount = JNum 0\<rparr>))) ''1'' ())
     = Inr \<lparr>status = 404, payload = JObj [(''error'', JStr ''TODO not found'')]\<rparr>"
  using delete_404_iff_rowCount_zero
      [of "mockClient None (Inr (Some \<lparr>rows = None, rowCount = JNull\<rparr>))" "()" "()" "''1''"
          "\<lparr>rows = None, rowCount = JNull\<rparr>" "()"]
    delete_404_iff_rowCount_zero
      [of "mockClient None (Inr (Some \<lparr>rows = None, rowCount = JUndefined\<rparr>))" "()" "()" "''1''"
          "\<lparr>rows = None, rowCount = JUndefined\<rparr>" "()"]
    delete_404_iff_rowCount_zero
      [of "mockClient None (Inr (Some \<lparr>rows = None, rowCount = JNum 2\<rparr>))" "()" "()" "''1''"
          "\<lparr>rows = None, rowCount = JNum 2\<rparr>" "()"]
    delete_404_iff_rowCount_zero
      [of "mockClient None (Inr (Some \<lparr>rows = None, rowCount = JNum 0\<rparr>))" "()" "()" "''1''"
          "\<lparr>rows = None, rowCount = JNum 0\<rparr>" "()"]
  by (simp add: mockClient_def)

text \<open>
  Claim C6, as stated, fails when acquiring the connection is what raises: the error
  propagates, but \<open>release\<close> has not run, since \<open>connect\<close> sits before the \<open>try\<close> and there
  is no client to release.
\<close>

theorem acquisition_error_without_release:
  "fst (createApp (mockClient (Some (Rejected ''Database connection failed'')) (Inr None)) GetTodos ())
     = Inl (Rejected ''Database connection failed'')
   \<and> Release \<notin> set (trace_of
         (createApp (mockClient (Some (Rejected ''Database connection failed'')) (Inr None)) GetTodos ()))"
  by (simp add: get_todos_def io_defs mockClient_def trace_of_def)

text \<open>
  Claim C6, amended. For every operation whose body can be destructured, an error raised
  by \<open>connect\<close> or by the statement is the error the handler throws: no reply is produced.
  When the statement raised it, \<open>release\<close> has been called exactly once, as the last call,
  before the error leaves the handler. When \<open>connect\<close> raised it, nothing was acquired, no
  statement was sent and \<open>release\<close> is not called.
\<close>

theorem errors_propagate:
  assumes "body_ok req"
  shows "(connect pg w = (Some e, w0) \<longrightarrow>
            fst (createApp pg req w) = Inl e \<and> trace_of (createApp pg req w) = [Connect])
    \<and> (connect pg w = (None, w1) \<and> statements (createApp pg req w) = [Query sql ps]
          \<and> fst (query pg sql ps w1) = Inl e \<longrightarrow>
            fst (createApp pg req w) = Inl e
            \<and> count_list (trace_of (createApp pg req w)) Release = 1
            \<and> last (trace_of (createApp pg req w)) = Release)"
proof (intro conjI impI)
  assume c: "connect pg w = (Some e, w0)"
  show "fst (createApp pg req w) = Inl e"
  proof (cases req)
    case GetTodos
    with connect_rejected(1) [OF c] show ?thesis by simp
  next
    case (PostTodos body)
    with assms obtain t where "get_field ''title'' body = Inr t"
      using get_field_ok [of body "''title''"] by auto
    from connect_rejected(2) [OF c this] PostTodos show ?thesis by simp
  next
    case (PutTodo ident body)
    with assms obtain t v where "get_field ''title'' body = Inr t"
      and "get_field ''completed'' body = Inr v"
      using get_field_ok [of body "''title''"] get_field_ok [of body "''completed''"] by auto
    from connect_rejected(3) [OF c this] PutTodo show ?thesis by simp
  next
    case (DeleteTodo ident)
    with connect_rejected(4) [OF c] show ?thesis by simp
  qed
  show "trace_of (createApp pg req w) = [Connect]"
  proof (cases req)
    case GetTodos
    with connect_rejected(1) [OF c] show ?thesis by (simp add: trace_of_def)
  next
    case (PostTodos body)
    with assms obtain t where "get_field ''title'' body = Inr t"
      using get_field_ok [of body "''title''"] by auto
    from connect_rejected(2) [OF c this] PostTodos show ?thesis by (simp add: trace_of_def)
  next
    case (PutTodo ident body)
    with assms obtain t v where "get_field ''title'' body = Inr t"
      and "get_field ''completed'' body = Inr v"
      using get_field_ok [of body "''title''"] get_field_ok [of body "''completed''"] by auto
    from connect_rejected(3) [OF c this] PutTodo show ?thesis by (simp add: trace_of_def)
  next
    case (DeleteTodo ident)
    with connect_rejected(4) [OF c] show ?thesis by (simp add: trace_of_def)
  qed
next
  assume a: "connect pg w = (None, w1) \<and> statements (createApp pg req w) = [Query sql ps]
    \<and> fst (query pg sql ps w1) = Inl e"
  then have c: "connect pg w = (None, w1)"
    and s: "statements (createApp pg req w) = [Query sql ps]"
    and f: "fst (query pg sql ps w1) = Inl e" by simp_all
  from c have "fst (connect pg w) = None" by simp
  from trace_connected [OF assms this] obtain sql' ps'
    where "trace_of (createApp pg req w) = [Connect, Query sql' ps', Release]" by blast
  then show "count_list (trace_of (createApp pg req w)) Release = 1"
    and "last (trace_of (createApp pg req w)) = Release" by simp_all
  show "fst (createApp pg req w) = Inl e"
  proof (cases req)
    case GetTodos
    obtain q w2 where q: "query pg sql_select None w1 = (q, w2)"
      by (cases "query pg sql_select None w1")
    from get_todos_connected [OF c q] GetTodos s f q show ?thesis
      by (auto simp: statements_def trace_of_def is_query_def)
  next
    case (PostTodos body)
    with assms obtain t where t: "get_field ''title'' body = Inr t"
      using get_field_ok [of body "''title''"] by auto
    obtain q w2 where q: "query pg sql_insert (Some [t, JBool False]) w1 = (q, w2)"
      by (cases "query pg sql_insert (Some [t, JBool False]) w1")
    from post_todos_connected [OF t c q] PostTodos s f q show ?thesis
      by (auto simp: statements_def trace_of_def is_query_def)
  next
    case (PutTodo ident body)
    with assms obtain t v where t: "get_field ''title'' body = Inr t"
      and v: "get_field ''completed'' body = Inr v"
      using get_field_ok [of body "''title''"] get_field_ok [of body "''completed''"] by auto
    obtain q w2 where q: "query pg sql_update (Some [t, v, JStr ident]) w1 = (q, w2)"
      by (cases "query pg sql_update (Some [t, v, JStr ident]) w1")
    from put_todo_connected [OF t v c q] PutTodo s f q show ?thesis
      by (auto simp: statements_def trace_of_def is_query_def)
  next
    case (DeleteTodo ident)
    obtain q w2 where q: "query pg sql_delete (Some [JStr ident]) w1 = (q, w2)"
      by (cases "query pg sql_delete (Some [JStr ident]) w1")
    from delete_todo_connected [OF c q] DeleteTodo s f q show ?thesis
      by (auto simp: statements_def trace_of_def is_query_def)
  qed
qed


theorem errors_propagate_witness:
  "body_ok (DeleteTodo ''1'')
   \<and> connect (mockClient None (Inl (Rejected ''Query failed''))) () = (None, ())
   \<and> statements (createApp (mockClient None (Inl (Rejected ''Query failed''))) (DeleteTodo ''1'') ())
       = [Query sql_delete (Some [JStr ''1''])]
   \<and> fst (query (mockClient None (Inl (Rejected ''Query failed''))) sql_delete (Some [JStr ''1'']) ())
       = Inl (Rejected ''Query failed'')
   \<and> fst (createApp (mockClient None (Inl (Rejected ''Query failed''))) (DeleteTodo ''1'') ())
       = Inl (Rejected ''Query failed'')
   \<and> count_list (trace_of (createApp (mockClient None (Inl (Rejected ''Query failed'')))
         (DeleteTodo ''1'') ())) Release = 1
   \<and> body_ok GetTodos
   \<and> connect (mockClient (Some (Rejected ''Connection timeout'')) (Inr None)) ()
       = (Some (Rejected ''Connection timeout''), ())
   \<and> fst (createApp (mockClient (Some (Rejected ''Connection timeout'')) (Inr None)) GetTodos ())
       = Inl (Rejected ''Connection timeout'')
   \<and> trace_of (createApp (mockClient (Some (Rejected ''Connection timeout'')) (Inr None)) GetTodos ())
       = [Connect]"
proof -
  have h: "body_ok (DeleteTodo ''1'')"
    "connect (mockClient None (Inl (Rejected ''Query failed''))) () = (None, ())"
    "statements (createApp (mockClient None (Inl (Rejected ''Query failed''))) (DeleteTodo ''1'') ())
       = [Query sql_delete (Some [JStr ''1''])]"
    "fst (query (mockClient None (Inl (Rejected ''Query failed''))) sql_delete (Some [JStr ''1'']) ())
       = Inl (Rejected ''Query failed'')"
    by (simp_all add: delete_todo_def io_defs mockClient_def statements_def trace_of_def is_query_def)
  have g: "body_ok GetTodos"
    "connect (mockClient (Some (Rejected ''Connection timeout'')) (Inr None)) ()
       = (Some (Rejected ''Connection timeout''), ())"
    by (simp_all add: mockClient_def)
  from h g
    errors_propagate [where req = "DeleteTodo ''1''"
      and pg = "mockClient None (Inl (Rejected ''Query failed''))" and w = "()" and ?w1.0 = "()"
      and sql = sql_delete and ps = "Some [JStr ''1'']" and e = "Rejected ''Query failed''"]
    errors_propagate [where req = GetTodos
      and pg = "mockClient (Some (Rejected ''Connection timeout'')) (Inr None)" and w = "()"
      and ?w0.0 = "()" and e = "Rejected ''Connection timeout''"]
  show ?thesis by simp
qed

section \<open>Properties of the store\<close>

lemma store_connect: "connect (store_pg co) db = (None, db)"
  by (simp add: store_pg_def)

lemma store_release: "release (store_pg co) db = db"
  by (simp add: store_pg_def)

lemma store_select: "query (store_pg co) sql_select ps db = (Inr (Some (select_all db)), db)"
  by (simp add: store_pg_def store_query_def)

lemma store_insert:
  assumes "as_text co t = Inr t'" and "as_bool co c = Inr c'"
  shows "query (store_pg co) sql_insert (Some [t, c]) db =
    (Inr (Some (fst (insert_returning t' c' db))), snd (insert_returning t' c' db))"
  using assms by (simp add: store_pg_def store_query_def sql_distinct split: prod.splits)

lemma store_update:
  assumes "as_text co t = Inr t'" and "as_bool co c = Inr c'" and "as_id co i = Inr i'"
  shows "query (store_pg co) sql_update (Some [t, c, i]) db =
    (Inr (Some (fst (update_returning t' c' i' db))), snd (update_returning t' c' i' db))"
  using assms by (simp add: store_pg_def store_query_def sql_distinct split: prod.splits)

lemma store_delete:
  assumes "as_id co i = Inr i'"
  shows "query (store_pg co) sql_delete (Some [i]) db =
    (Inr (Some (fst (delete_where i' db))), snd (delete_where i' db))"
  using assms by (simp add: store_pg_def store_query_def sql_distinct split: prod.splits)

lemma update_miss:
  assumes "i \<notin> todo_id ` set (todos db)"
  shows "update_returning t c i db = (\<lparr>rows = Some [], rowCount = JNum 0\<rparr>, db)"
proof -
  have same: "map (\<lambda>r. if todo_id r = i then r\<lparr>title := t, completed := c\<rparr> else r) (todos db)
      = todos db"
    using assms by (intro map_idI) auto
  have none: "filter (\<lambda>r. todo_id r = i) (todos db) = []"
    using assms by (auto simp: filter_empty_conv)
  show ?thesis
    by (simp add: update_returning_def same none)
qed

lemma update_hit_rows:
  assumes "i \<in> todo_id ` set xs"
  shows "\<exists>rest. filter (\<lambda>r. todo_id r = i)
            (map (\<lambda>r. if todo_id r = i then r\<lparr>title := t, completed := c\<rparr> else r) xs)
          = \<lparr>todo_id = i, title = t, completed = c\<rparr> # rest"
  using assms by (induction xs) auto

lemma update_hit:
  assumes "i \<in> todo_id ` set (todos db)"
  shows "\<exists>rest. rows (fst (update_returning t c i db))
           = Some (row_js \<lparr>todo_id = i, title = t, completed = c\<rparr> # rest)"
proof -
  from update_hit_rows [OF assms, where t = t and c = c] obtain rest where
    "filter (\<lambda>r. todo_id r = i)
       (map (\<lambda>r. if todo_id r = i then r\<lparr>title := t, completed := c\<rparr> else r) (todos db))
     = \<lparr>todo_id = i, title = t, completed = c\<rparr> # rest" by blast
  then show ?thesis
    by (simp add: update_returning_def Let_def)
qed

lemma row_js_inj: "row_js a = row_js b \<longleftrightarrow> a = b"
  by (cases a, cases b) (simp add: row_js_def)

lemma count_list_row_js: "count_list (map row_js xs) (row_js x) = count_list xs x"
  by (induction xs) (simp_all add: row_js_inj)

lemma count_list_sort_key: "count_list (sort_key f xs) x = count_list xs x"
proof -
  have "count (mset (sort_key f xs)) x = count (mset xs) x" by simp
  then show ?thesis by (simp only: count_mset)
qed

lemma fresh_id_not_in_table:
  assumes "wf_store db"
  shows "count_list (todos db) \<lparr>todo_id = next_id db, title = t, completed = c\<rparr> = 0"
proof -
  have "\<lparr>todo_id = next_id db, title = t, completed = c\<rparr> \<notin> set (todos db)"
    using assms by (auto simp: wf_store_def list_all_iff)
  then show ?thesis by (simp add: count_list_0_iff)
qed

lemma wf_insert:
  assumes "wf_store db"
  shows "wf_store (snd (insert_returning t c db))"
  using assms by (auto simp: wf_store_def insert_returning_def Let_def list_all_iff)

lemma wf_update:
  assumes "wf_store db"
  shows "wf_store (snd (update_returning t c i db))"
proof -
  have ids: "todo_id \<circ> (\<lambda>r. if todo_id r = i then r\<lparr>title := t, completed := c\<rparr> else r) = todo_id"
    by (rule ext) simp
  have "distinct (map todo_id (todos (snd (update_returning t c i db))))"
    using assms by (simp add: wf_store_def update_returning_def Let_def ids)
  moreover have "list_all (\<lambda>r. todo_id r < next_id (snd (update_returning t c i db)))
      (todos (snd (update_returning t c i db)))"
    using assms by (auto simp: wf_store_def update_returning_def Let_def list_all_iff)
  ultimately show ?thesis by (simp add: wf_store_def)
qed

lemma wf_delete:
  assumes "wf_store db"
  shows "wf_store (snd (delete_where i db))"
  using assms by (auto simp: wf_store_def delete_where_def list_all_iff distinct_map_filter)

lemma wf_empty: "wf_store \<lparr>todos = [], next_id = n\<rparr>"
  by (simp add: wf_store_def)

lemma wf_store_query:
  assumes "wf_store db"
  shows "wf_store (snd (store_query co sql ps db))"
proof -
  have keep: "snd (case p of (r, db') \<Rightarrow> (f r, db')) = snd p" for p :: "query_result \<times> store"
    and f :: "query_result \<Rightarrow> error + query_result option"
    by (cases p) simp
  show ?thesis
    using assms wf_insert [OF assms] wf_update [OF assms] wf_delete [OF assms]
    by (simp add: store_query_def keep split: option.splits list.splits sum.splits)
qed

lemma wf_sampleStore: "wf_store sampleStore"
  by (simp add: wf_store_def sampleStore_def sampleTodos_def)

section \<open>The handlers on the store\<close>

text \<open>
  Claim C3. For every client, an Update whose statement resolves with no row is answered
  404 with the payload \<open>{error: "TODO not found"}\<close>, and one whose statement resolves with
  a row is answered 200 with that row. On the store, once it has read the parameters as a
  text, a boolean and the id \<open>i\<close>: when \<open>i\<close> matches no row of the table the reply is the
  404 and the store after the request is the store before it; when it matches a row the
  reply is 200 with the row as updated. (A parameter the store cannot read makes the
  statement reject: that is an error of the statement, not a request that matches no row.)
\<close>

theorem update_not_found_or_updated:
  assumes "get_field ''title'' body = Inr t"
    and "get_field ''completed'' body = Inr c"
  shows "(connect pg w = (None, w1)
          \<and> query pg sql_update (Some [t, c, JStr ident]) w1 = (Inr (Some r), w2) \<longrightarrow>
            (rows r = Some [] \<longrightarrow>
               fst (put_todo pg ident body w)
                 = Inr \<lparr>status = 404, payload = JObj [(''error'', JStr ''TODO not found'')]\<rparr>)
            \<and> (rows r = Some (row # rest) \<longrightarrow>
               fst (put_todo pg ident body w) = Inr \<lparr>status = 200, payload = row\<rparr>))
    \<and> (as_text co t = Inr t' \<and> as_bool co c = Inr c' \<and> as_id co (JStr ident) = Inr i \<longrightarrow>
            (i \<notin> todo_id ` set (todos db) \<longrightarrow>
               fst (put_todo (store_pg co) ident body db)
                 = Inr \<lparr>status = 404, payload = JObj [(''error'', JStr ''TODO not found'')]\<rparr>
               \<and> world_of (put_todo (store_pg co) ident body db) = db)
            \<and> (i \<in> todo_id ` set (todos db) \<longrightarrow>
               fst (put_todo (store_pg co) ident body db)
                 = Inr \<lparr>status = 200,
                        payload = row_js \<lparr>todo_id = i, title = t', completed = c'\<rparr>\<rparr>))"
proof (intro conjI impI)
  assume "connect pg w = (None, w1)
    \<and> query pg sql_update (Some [t, c, JStr ident]) w1 = (Inr (Some r), w2)"
  then have on_client: "fst (put_todo pg ident body w) =
      (case rows r of
         None \<Rightarrow> Inl TypeError
       | Some [] \<Rightarrow> Inr \<lparr>status = 404, payload = JObj [(''error'', JStr ''TODO not found'')]\<rparr>
       | Some (x # xs) \<Rightarrow> Inr \<lparr>status = 200, payload = x\<rparr>)"
    using put_todo_connected [OF assms, of pg w w1 ident "Inr (Some r)" w2]
    by (simp add: result_rows_def)
  {
    assume "rows r = Some []"
    with on_client show "fst (put_todo pg ident body w)
        = Inr \<lparr>status = 404, payload = JObj [(''error'', JStr ''TODO not found'')]\<rparr>"
      by simp
  next
    assume "rows r = Some (row # rest)"
    with on_client show "fst (put_todo pg ident body w) = Inr \<lparr>status = 200, payload = row\<rparr>"
      by simp
  }
next
  assume "as_text co t = Inr t' \<and> as_bool co c = Inr c' \<and> as_id co (JStr ident) = Inr i"
  then have co: "as_text co t = Inr t'" "as_bool co c = Inr c'" "as_id co (JStr ident) = Inr i"
    by simp_all
  note on_store = put_todo_connected [OF assms store_connect store_update [OF co], of db]
  {
    assume "i \<notin> todo_id ` set (todos db)"
    then have miss: "update_returning t' c' i db = (\<lparr>rows = Some [], rowCount = JNum 0\<rparr>, db)"
      by (rule update_miss)
    with on_store show "fst (put_todo (store_pg co) ident body db)
        = Inr \<lparr>status = 404, payload = JObj [(''error'', JStr ''TODO not found'')]\<rparr>"
      by (simp add: result_rows_def)
    from on_store miss show "world_of (put_todo (store_pg co) ident body db) = db"
      by (simp add: world_of_def store_release)
  next
    assume "i \<in> todo_id ` set (todos db)"
    from update_hit [OF this, of t' c'] obtain others where
      "rows (fst (update_returning t' c' i db))
         = Some (row_js \<lparr>todo_id = i, title = t', completed = c'\<rparr> # others)" by blast
    with on_store show "fst (put_todo (store_pg co) ident body db)
        = Inr \<lparr>status = 200, payload = row_js \<lparr>todo_id = i, title = t', completed = c'\<rparr>\<rparr>"
      by (simp add: result_rows_def)
  }
qed

theorem update_not_found_or_updated_witness:
  "get_field ''title'' (JObj [(''title'', JStr ''Updated todo''), (''completed'', JBool True)])
     = Inr (JStr ''Updated todo'')
   \<and> get_field ''completed'' (JObj [(''title'', JStr ''Updated todo''), (''completed'', JBool True)])
     = Inr (JBool True)
   \<and> fst (put_todo (mockClient None (Inr (Some \<lparr>rows = Some [], rowCount = JUndefined\<rparr>))) ''999''
        (JObj [(''title'', JStr ''Updated todo''), (''completed'', JBool True)]) ())
     = Inr \<lparr>status = 404, payload = JObj [(''error'', JStr ''TODO not found'')]\<rparr>
   \<and> as_id strict (JStr ''999'') = Inr 999
   \<and> 999 \<notin> todo_id ` set (todos sampleStore)
   \<and> fst (put_todo (store_pg strict) ''999''
        (JObj [(''title'', JStr ''Updated todo''), (''completed'', JBool True)]) sampleStore)
     = Inr \<lparr>status = 404, payload = JObj [(''error'', JStr ''TODO not found'')]\<rparr>
   \<and> world_of (put_todo (store_pg strict) ''999''
        (JObj [(''title'', JStr ''Updated todo''), (''completed'', JBool True)]) sampleStore)
     = sampleStore
   \<and> as_id strict (JStr ''2'') = Inr 2
   \<and> 2 \<in> todo_id ` set (todos sampleStore)
   \<and> fst (put_todo (store_pg strict) ''2''
        (JObj [(''title'', JStr ''Updated todo''), (''completed'', JBool True)]) sampleStore)
     = Inr \<lparr>status = 200,
            payload = row_js \<lparr>todo_id = 2, title = ''Updated todo'', completed = True\<rparr>\<rparr>"
proof -
  let ?body = "JObj [(''title'', JStr ''Updated todo''), (''completed'', JBool True)]"
  let ?pg = "mockClient None (Inr (Some \<lparr>rows = Some [], rowCount = JUndefined\<rparr>))"
  have t: "get_field ''title'' ?body = Inr (JStr ''Updated todo'')"
    and c: "get_field ''completed'' ?body = Inr (JBool True)"
    by simp_all
  have client: "connect ?pg () = (None, ())"
    "query ?pg sql_update (Some [JStr ''Updated todo'', JBool True, JStr ''999'']) ()
       = (Inr (Some \<lparr>rows = Some [], rowCount = JUndefined\<rparr>), ())"
    by (simp_all add: mockClient_def)
  have as_t: "as_text strict (JStr ''Updated todo'') = Inr ''Updated todo''"
    and as_b: "as_bool strict (JBool True) = Inr True"
    by (simp_all add: as_text_def as_bool_def)
  have miss: "as_id strict (JStr ''999'') = Inr 999"
    and hit: "as_id strict (JStr ''2'') = Inr 2"
    by (simp_all add: as_id_def strict_def decimal_def)
  have ids: "999 \<notin> todo_id ` set (todos sampleStore)" "2 \<in> todo_id ` set (todos sampleStore)"
    by (simp_all add: sampleStore_def sampleTodos_def)
  from t c client as_t as_b miss hit ids
    update_not_found_or_updated
      [OF t c, where pg = ?pg and w = "()" and ?w1.0 = "()" and ?w2.0 = "()" and ident = "''999''"
         and r = "\<lparr>rows = Some [], rowCount = JUndefined\<rparr>" and row = JNull and rest = "[]"
         and co = strict and t' = "''Updated todo''" and c' = True and i = 999 and db = sampleStore]
    update_not_found_or_updated
      [OF t c, where pg = ?pg and w = "()" and ?w1.0 = "()" and ?w2.0 = "()" and ident = "''2''"
         and r = "\<lparr>rows = Some [], rowCount = JUndefined\<rparr>" and row = JNull and rest = "[]"
         and co = strict and t' = "''Updated todo''" and c' = True and i = 2 and db = sampleStore]
  show ?thesis
    by simp
qed

text \<open>
  Claim C5. For every client, a List whose statement resolves with rows is answered 200
  with exactly those rows, in the order given. On the store, for every table: the reply is
  200 with the rows of the table sorted by id, each row once, and an empty table gives the
  empty array.
\<close>

theorem list_returns_all_rows_ascending:
  "(connect pg w = (None, w1) \<and> query pg sql_select None w1 = (Inr (Some r), w2)
      \<and> rows r = Some xs \<longrightarrow>
        fst (get_todos pg w) = Inr \<lparr>status = 200, payload = JArr xs\<rparr>)
    \<and> fst (get_todos (store_pg co) db)
        = Inr \<lparr>status = 200, payload = JArr (map row_js (sort_key todo_id (todos db)))\<rparr>
    \<and> sorted (map todo_id (sort_key todo_id (todos db)))
    \<and> mset (sort_key todo_id (todos db)) = mset (todos db)
    \<and> (todos db = [] \<longrightarrow>
          fst (get_todos (store_pg co) db) = Inr \<lparr>status = 200, payload = JArr []\<rparr>)"
proof -
  have "fst (get_todos pg w) = Inr \<lparr>status = 200, payload = JArr xs\<rparr>"
    if "connect pg w = (None, w1)" and "query pg sql_select None w1 = (Inr (Some r), w2)"
      and "rows r = Some xs"
    using get_todos_connected [OF that(1,2)] that(3) by (simp add: result_rows_def)
  moreover from get_todos_connected [OF store_connect store_select, of co db]
  have "fst (get_todos (store_pg co) db)
      = Inr \<lparr>status = 200, payload = JArr (map row_js (sort_key todo_id (todos db)))\<rparr>"
    by (simp add: result_rows_def select_all_def)
  ultimately show ?thesis by simp
qed

theorem list_returns_all_rows_ascending_witness:
  "connect (mockClient None (Inr (Some \<lparr>rows = Some [], rowCount = JNum 0\<rparr>))) () = (None, ())
   \<and> fst (get_todos (mockClient None (Inr (Some \<lparr>rows = Some [], rowCount = JNum 0\<rparr>))) ())
     = Inr \<lparr>status = 200, payload = JArr []\<rparr>
   \<and> fst (get_todos (store_pg strict) \<lparr>todos = rev sampleTodos, next_id = 5\<rparr>)
     = Inr \<lparr>status = 200, payload = JArr (map row_js sampleTodos)\<rparr>
   \<and> fst (get_todos (store_pg strict) \<lparr>todos = [], next_id = 1\<rparr>)
     = Inr \<lparr>status = 200, payload = JArr []\<rparr>"
proof -
  let ?pg = "mockClient None (Inr (Some \<lparr>rows = Some [], rowCount = JNum 0\<rparr>))"
  have h: "connect ?pg () = (None, ())"
    "query ?pg sql_select None () = (Inr (Some \<lparr>rows = Some [], rowCount = JNum 0\<rparr>), ())"
    "rows \<lparr>rows = Some [], rowCount = JNum 0\<rparr> = Some []"
    by (simp_all add: mockClient_def)
  have in_order: "sort_key todo_id (rev sampleTodos) = sampleTodos"
    by (simp add: sampleTodos_def)
  from h
    list_returns_all_rows_ascending
      [where pg = ?pg and w = "()" and ?w1.0 = "()" and ?w2.0 = "()"
         and r = "\<lparr>rows = Some [], rowCount = JNum 0\<rparr>" and xs = "[]"
         and co = strict and db = "\<lparr>todos = rev sampleTodos, next_id = 5\<rparr>"]
    list_returns_all_rows_ascending
      [where pg = ?pg and w = "()" and ?w1.0 = "()" and ?w2.0 = "()"
         and r = "\<lparr>rows = Some [], rowCount = JNum 0\<rparr>" and xs = "[]"
         and co = strict and db = "\<lparr>todos = [], next_id = 1\<rparr>"]
  show ?thesis
    by (simp add: in_order)
qed

text \<open>
  Claim C8. On a store that satisfies the id invariant, Create with a title the store
  reads as the text \<open>T\<close>, followed by List, gives: a 201 reply whose body is the row with
  the next id, title \<open>T\<close> and \<open>completed = false\<close>; then a 200 reply whose array holds that
  row exactly once.
\<close>

theorem create_then_list_round_trip:
  assumes "wf_store db"
    and "get_field ''title'' body = Inr t"
    and "as_text co t = Inr T"
  shows "fst (post_todos (store_pg co) body db)
        = Inr \<lparr>status = 201,
               payload = row_js \<lparr>todo_id = next_id db, title = T, completed = False\<rparr>\<rparr>
    \<and> (\<exists>rs. fst (get_todos (store_pg co) (world_of (post_todos (store_pg co) body db)))
              = Inr \<lparr>status = 200, payload = JArr rs\<rparr>
          \<and> count_list rs (row_js \<lparr>todo_id = next_id db, title = T, completed = False\<rparr>) = 1)"
proof -
  let ?new = "\<lparr>todo_id = next_id db, title = T, completed = False\<rparr>"
  have b: "as_bool co (JBool False) = Inr False"
    by (simp add: as_bool_def)
  note created = post_todos_connected [OF assms(2) store_connect store_insert [OF assms(3) b], of db]
  from created have reply: "fst (post_todos (store_pg co) body db)
      = Inr \<lparr>status = 201, payload = row_js ?new\<rparr>"
    by (simp add: result_rows_def first_row_def insert_returning_def Let_def)
  from created have after: "todos (world_of (post_todos (store_pg co) body db)) = todos db @ [?new]"
    by (simp add: world_of_def store_release insert_returning_def Let_def)
  let ?db' = "world_of (post_todos (store_pg co) body db)"
  from get_todos_connected [OF store_connect store_select, of co ?db']
  have listed: "fst (get_todos (store_pg co) ?db')
      = Inr \<lparr>status = 200, payload = JArr (map row_js (sort_key todo_id (todos ?db')))\<rparr>"
    by (simp add: result_rows_def select_all_def)
  have "count_list (map row_js (sort_key todo_id (todos ?db'))) (row_js ?new) = 1"
    using fresh_id_not_in_table [OF assms(1), of T False]
    by (simp add: count_list_row_js count_list_sort_key after)
  with reply listed show ?thesis by blast
qed

theorem create_then_list_round_trip_witness:
  "wf_store sampleStore
   \<and> get_field ''title'' (JObj [(''title'', JStr ''Buy milk'')]) = Inr (JStr ''Buy milk'')
   \<and> as_text strict (JStr ''Buy milk'') = Inr ''Buy milk''
   \<and> fst (post_todos (store_pg strict) (JObj [(''title'', JStr ''Buy milk'')]) sampleStore)
       = Inr \<lparr>status = 201,
              payload = row_js \<lparr>todo_id = 5, title = ''Buy milk'', completed = False\<rparr>\<rparr>
   \<and> (\<exists>rs. fst (get_todos (store_pg strict)
                (world_of (post_todos (store_pg strict) (JObj [(''title'', JStr ''Buy milk'')])
                   sampleStore)))
              = Inr \<lparr>status = 200, payload = JArr rs\<rparr>
          \<and> count_list rs (row_js \<lparr>todo_id = 5, title = ''Buy milk'', completed = False\<rparr>) = 1)"
proof -
  have t: "get_field ''title'' (JObj [(''title'', JStr ''Buy milk'')]) = Inr (JStr ''Buy milk'')"
    by simp
  have as_t: "as_text strict (JStr ''Buy milk'') = Inr ''Buy milk''"
    by (simp add: as_text_def)
  have n: "next_id sampleStore = 5"
    by (simp add: sampleStore_def)
  from create_then_list_round_trip [OF wf_sampleStore t as_t] wf_sampleStore t as_t
  show ?thesis
    by (simp add: n)
qed

text \<open>
  Claim C10. For every client, a List that acquires its connection sends exactly one
  statement, the SELECT, and the handler does nothing else to the world: the state after
  the request is the state \<open>release\<close> leaves from the one the SELECT left. On the store, whose
  SELECT changes nothing, the store after the request equals the store before it.
\<close>

theorem list_is_read_only:
  "(connect pg w = (None, w1) \<and> query pg sql_select None w1 = (q, w2) \<longrightarrow>
      statements (get_todos pg w) = [Query sql_select None]
      \<and> world_of (get_todos pg w) = release pg w2)
    \<and> statements (get_todos (store_pg co) db) = [Query sql_select None]
    \<and> world_of (get_todos (store_pg co) db) = db"
proof -
  have "statements (get_todos pg w) = [Query sql_select None]
      \<and> world_of (get_todos pg w) = release pg w2"
    if "connect pg w = (None, w1)" and "query pg sql_select None w1 = (q, w2)"
    using get_todos_connected [OF that]
    by (simp add: statements_def trace_of_def world_of_def is_query_def)
  moreover from get_todos_connected [OF store_connect store_select, of co db]
  have "statements (get_todos (store_pg co) db) = [Query sql_select None]
      \<and> world_of (get_todos (store_pg co) db) = db"
    by (simp add: statements_def trace_of_def world_of_def is_query_def store_release)
  ultimately show ?thesis by simp
qed

theorem list_is_read_only_witness:
  "connect (mockClient None (Inl (Rejected ''Query failed''))) () = (None, ())
   \<and> query (mockClient None (Inl (Rejected ''Query failed''))) sql_select None ()
       = (Inl (Rejected ''Query failed''), ())
   \<and> statements (get_todos (mockClient None (Inl (Rejected ''Query failed''))) ())
       = [Query sql_select None]
   \<and> statements (get_todos (store_pg strict) sampleStore) = [Query sql_select None]
   \<and> world_of (get_todos (store_pg strict) sampleStore) = sampleStore"
proof -
  let ?pg = "mockClient None (Inl (Rejected ''Query failed''))"
  have h: "connect ?pg () = (None, ())"
    "query ?pg sql_select None () = (Inl (Rejected ''Query failed''), ())"
    by (simp_all add: mockClient_def)
  from h
    list_is_read_only
      [where pg = ?pg and w = "()" and ?w1.0 = "()" and ?w2.0 = "()"
         and q = "Inl (Rejected ''Query failed'')" and co = strict and db = sampleStore]
  show ?thesis by simp
qed

end
